theory Spec2Isabelle
  imports Complex_Main "HOL-Library.Extended_Nat" "HOL-Library.While_Combinator"
begin

section \<open>Grid model\<close>

text \<open>
  A cell of the grid (\<^verbatim>\<open>GridNode\<close> in \<^verbatim>\<open>types/pathfinding.ts\<close>).  The source stores
  the indices of a cell in its fields \<^verbatim>\<open>row\<close> and \<^verbatim>\<open>col\<close> and refers to cells by
  object reference; here a cell is referred to by its position \<open>Pos row col\<close> in the
  grid, so \<^verbatim>\<open>node.row\<close> is \<open>row p\<close>, \<^verbatim>\<open>node.col\<close> is \<open>col p\<close>, and \<^verbatim>\<open>previousNode\<close>
  holds a position.  \<^verbatim>\<open>distance\<close> is a number that is either a sum of weights or
  \<^verbatim>\<open>Number.POSITIVE_INFINITY\<close>: an extended natural number.  Weights are natural
  numbers (the caller writes 1 or 5).
\<close>

datatype pos = Pos (row: nat) (col: nat)

record GridNode =
  isStart :: bool
  isEnd :: bool
  isWall :: bool
  isVisited :: bool
  isPath :: bool
  distance :: enat
  heuristic :: nat
  weight :: nat
  previousNode :: "pos option"

type_synonym grid = "GridNode list list"

text \<open>\<^verbatim>\<open>VisualizationStats\<close> and \<^verbatim>\<open>AlgorithmResult\<close>; the wall-clock field
  \<^verbatim>\<open>executionTime\<close> is left out.\<close>

record VisualizationStats =
  pathFound :: bool
  pathLength :: nat
  nodesVisited :: nat
  nodesInPath :: nat

record AlgorithmResult =
  path :: "pos list"
  visitedNodes :: "pos list"
  stats :: VisualizationStats

text \<open>Reading and writing the cell at a position: \<^verbatim>\<open>grid[row][col]\<close>.\<close>

definition node :: "grid \<Rightarrow> pos \<Rightarrow> GridNode" where
  "node g p = g ! row p ! col p"

definition upd :: "grid \<Rightarrow> pos \<Rightarrow> (GridNode \<Rightarrow> GridNode) \<Rightarrow> grid" where
  "upd g p f = g[row p := (g ! row p)[col p := f (g ! row p ! col p)]]"

text \<open>The positions of the grid in row-major order, as \<^verbatim>\<open>for (const row of grid) for
  (const node of row)\<close> enumerates them.\<close>

definition all_nodes :: "grid \<Rightarrow> pos list" where
  "all_nodes g = concat (map (\<lambda>r. map (\<lambda>c. Pos r c) [0..<length (g ! r)]) [0..<length g])"

subsection \<open>Helper functions of the search module\<close>

definition directions :: "(int \<times> int) list" where
  "directions = [(-1, 0), (1, 0), (0, -1), (0, 1)]"

definition getNeighbors :: "grid \<Rightarrow> pos \<Rightarrow> pos list" where
  "getNeighbors g p =
     map (\<lambda>(newRow, newCol). Pos (nat newRow) (nat newCol))
       (filter (\<lambda>(newRow, newCol). newRow \<ge> 0 \<and> newRow < int (length g)
                                  \<and> newCol \<ge> 0 \<and> newCol < int (length (g ! 0)))
          (map (\<lambda>(dr, dc). (int (row p) + dr, int (col p) + dc)) directions))"

text \<open>\<^verbatim>\<open>heuristic(nodeA, nodeB)\<close>: the Manhattan distance.\<close>

definition manhattan :: "pos \<Rightarrow> pos \<Rightarrow> nat" where
  "manhattan a b = nat \<bar>int (row a) - int (row b)\<bar> + nat \<bar>int (col a) - int (col b)\<bar>"

text \<open>\<^verbatim>\<open>reconstructPath\<close>: the loop \<^verbatim>\<open>while (currentNode !== null)\<close> follows the
  \<^verbatim>\<open>previousNode\<close> links and need not end on a cyclic chain; \<open>None\<close> stands for a
  loop that does not end.\<close>

definition reconstructPath :: "grid \<Rightarrow> pos \<Rightarrow> pos list option" where
  "reconstructPath g endNode =
     map_option fst
       (while_option (\<lambda>(path, currentNode). currentNode \<noteq> None)
          (\<lambda>(path, currentNode). (the currentNode # path, previousNode (node g (the currentNode))))
          ([], Some endNode))"

subsection \<open>State of a running search\<close>

text \<open>
  The local variables of one run: the grid (mutated in place by the source), the
  \<^verbatim>\<open>visitedNodes\<close> array, the work list (\<^verbatim>\<open>unvisitedNodes\<close> of dijkstra, \<^verbatim>\<open>openSet\<close> of
  astar and greedy, \<^verbatim>\<open>queue\<close> of bfs; unused by dfs), the log of the awaited
  \<^verbatim>\<open>setTimeout\<close> suspensions (cell visited, duration), and how the loop was left:
  still running, left by \<^verbatim>\<open>break\<close> or with the end cell reached (\<^verbatim>\<open>return\<close> inside
  the loop).
\<close>

datatype phase = Running | Stopped | Reached

record search_state =
  s_grid :: grid
  s_visited :: "pos list"
  s_worklist :: "pos list"
  s_delays :: "(pos \<times> rat) list"
  s_phase :: phase

definition visit_delay :: "pos \<Rightarrow> pos \<Rightarrow> int \<Rightarrow> pos \<Rightarrow> (pos \<times> rat) list" where
  "visit_delay startNode endNode animationSpeed currentNode =
     (if currentNode \<noteq> startNode \<and> currentNode \<noteq> endNode
      then [(currentNode, of_int (101 - animationSpeed))] else [])"

text \<open>The two results every algorithm builds.  The loop that sets \<^verbatim>\<open>isPath\<close> on the
  interior cells of the path and awaits 50 time units per cell changes neither the
  path nor the visited sequence and is not modelled.\<close>

definition found_result :: "pos list \<Rightarrow> pos list \<Rightarrow> AlgorithmResult" where
  "found_result p vs =
     \<lparr>path = p, visitedNodes = vs,
      stats = \<lparr>pathFound = True, pathLength = length p,
               nodesVisited = length vs, nodesInPath = length p\<rparr>\<rparr>"

definition failure_result :: "pos list \<Rightarrow> AlgorithmResult" where
  "failure_result vs =
     \<lparr>path = [], visitedNodes = vs,
      stats = \<lparr>pathFound = False, pathLength = 0,
               nodesVisited = length vs, nodesInPath = 0\<rparr>\<rparr>"

definition finish :: "pos \<Rightarrow> search_state \<Rightarrow> AlgorithmResult option" where
  "finish endNode st =
     (if s_phase st = Reached
      then map_option (\<lambda>p. found_result p (s_visited st)) (reconstructPath (s_grid st) endNode)
      else Some (failure_result (s_visited st)))"

subsection \<open>dijkstra\<close>

definition dijkstra_reset :: "GridNode \<Rightarrow> GridNode" where
  "dijkstra_reset n = n\<lparr>distance := \<infinity>, previousNode := None, isVisited := False, isPath := False\<rparr>"

definition dijkstra_init :: "grid \<Rightarrow> pos \<Rightarrow> search_state" where
  "dijkstra_init g start =
     \<lparr>s_grid = upd (map (map dijkstra_reset) g) start (\<lambda>n. n\<lparr>distance := 0\<rparr>),
      s_visited = [], s_worklist = all_nodes g, s_delays = [], s_phase = Running\<rparr>"

definition dijkstra_relax :: "pos \<Rightarrow> grid \<Rightarrow> pos \<Rightarrow> grid" where
  "dijkstra_relax currentNode g neighbor =
     (if \<not> isVisited (node g neighbor) \<and> \<not> isWall (node g neighbor)
      then let tentativeDistance = distance (node g currentNode) + enat (weight (node g neighbor))
           in if tentativeDistance < distance (node g neighbor)
              then upd g neighbor (\<lambda>n. n\<lparr>distance := tentativeDistance, previousNode := Some currentNode\<rparr>)
              else g
      else g)"

definition dijkstra_step :: "pos \<Rightarrow> pos \<Rightarrow> int \<Rightarrow> search_state \<Rightarrow> search_state" where
  "dijkstra_step startNode endNode animationSpeed st =
     (case sort_key (\<lambda>p. distance (node (s_grid st) p)) (s_worklist st) of
        [] \<Rightarrow> st
      | currentNode # rest \<Rightarrow>
          if isWall (node (s_grid st) currentNode) \<or> distance (node (s_grid st) currentNode) = \<infinity>
          then st\<lparr>s_worklist := rest, s_phase := Stopped\<rparr>
          else
            let g = upd (s_grid st) currentNode (\<lambda>n. n\<lparr>isVisited := True\<rparr>);
                vs = s_visited st @ [currentNode];
                ds = s_delays st @ visit_delay startNode endNode animationSpeed currentNode
            in if currentNode = endNode
               then st\<lparr>s_grid := g, s_visited := vs, s_worklist := rest, s_delays := ds,
                       s_phase := Reached\<rparr>
               else st\<lparr>s_grid := foldl (dijkstra_relax currentNode) g (getNeighbors g currentNode),
                       s_visited := vs, s_worklist := rest, s_delays := ds\<rparr>)"

definition search_cond :: "search_state \<Rightarrow> bool" where
  "search_cond st \<longleftrightarrow> s_worklist st \<noteq> [] \<and> s_phase st = Running"

definition dijkstra_loop :: "grid \<Rightarrow> pos \<Rightarrow> pos \<Rightarrow> int \<Rightarrow> search_state option" where
  "dijkstra_loop g start end animationSpeed =
     while_option search_cond (dijkstra_step start end animationSpeed) (dijkstra_init g start)"

definition dijkstra :: "grid \<Rightarrow> pos \<Rightarrow> pos \<Rightarrow> int \<Rightarrow> AlgorithmResult option" where
  "dijkstra g start end animationSpeed =
     Option.bind (dijkstra_loop g start end animationSpeed) (finish end)"

subsection \<open>astar\<close>

definition astar_reset :: "GridNode \<Rightarrow> GridNode" where
  "astar_reset n =
     n\<lparr>distance := \<infinity>, heuristic := 0, previousNode := None, isVisited := False, isPath := False\<rparr>"

definition astar_init :: "grid \<Rightarrow> pos \<Rightarrow> pos \<Rightarrow> search_state" where
  "astar_init g start end =
     \<lparr>s_grid = upd (map (map astar_reset) g) start
                  (\<lambda>n. n\<lparr>distance := 0, heuristic := manhattan start end\<rparr>),
      s_visited = [], s_worklist = [start], s_delays = [], s_phase = Running\<rparr>"

text \<open>One round of the loop over the neighbours; the pair is the grid and the open set.\<close>

definition astar_relax :: "pos \<Rightarrow> pos \<Rightarrow> grid \<times> pos list \<Rightarrow> pos \<Rightarrow> grid \<times> pos list" where
  "astar_relax currentNode endNode gs neighbor =
     (let (g, openSet) = gs in
      if isVisited (node g neighbor) \<or> isWall (node g neighbor) then gs
      else
        let tentativeDistance = distance (node g currentNode) + enat (weight (node g neighbor));
            isInOpenSet = (neighbor \<in> set openSet)
        in if \<not> isInOpenSet \<or> tentativeDistance < distance (node g neighbor)
           then (upd g neighbor
                   (\<lambda>n. n\<lparr>distance := tentativeDistance,
                          heuristic := manhattan neighbor endNode,
                          previousNode := Some currentNode\<rparr>),
                 if \<not> isInOpenSet then openSet @ [neighbor] else openSet)
           else gs)"

definition astar_step :: "pos \<Rightarrow> pos \<Rightarrow> int \<Rightarrow> search_state \<Rightarrow> search_state" where
  "astar_step startNode endNode animationSpeed st =
     (case sort_key (\<lambda>p. distance (node (s_grid st) p) + enat (heuristic (node (s_grid st) p)))
             (s_worklist st) of
        [] \<Rightarrow> st
      | currentNode # rest \<Rightarrow>
          if isWall (node (s_grid st) currentNode) then st\<lparr>s_worklist := rest\<rparr>
          else
            let g = upd (s_grid st) currentNode (\<lambda>n. n\<lparr>isVisited := True\<rparr>);
                vs = s_visited st @ [currentNode];
                ds = s_delays st @ visit_delay startNode endNode animationSpeed currentNode
            in if currentNode = endNode
               then st\<lparr>s_grid := g, s_visited := vs, s_worklist := rest, s_delays := ds,
                       s_phase := Reached\<rparr>
               else
                 let (g', openSet) =
                       foldl (astar_relax currentNode endNode) (g, rest) (getNeighbors g currentNode)
                 in st\<lparr>s_grid := g', s_visited := vs, s_worklist := openSet, s_delays := ds\<rparr>)"

definition astar_loop :: "grid \<Rightarrow> pos \<Rightarrow> pos \<Rightarrow> int \<Rightarrow> search_state option" where
  "astar_loop g start end animationSpeed =
     while_option search_cond (astar_step start end animationSpeed) (astar_init g start end)"

definition astar :: "grid \<Rightarrow> pos \<Rightarrow> pos \<Rightarrow> int \<Rightarrow> AlgorithmResult option" where
  "astar g start end animationSpeed =
     Option.bind (astar_loop g start end animationSpeed) (finish end)"

subsection \<open>bfs\<close>

definition bfs_init :: "grid \<Rightarrow> pos \<Rightarrow> search_state" where
  "bfs_init g start =
     \<lparr>s_grid = upd (map (map dijkstra_reset) g) start (\<lambda>n. n\<lparr>distance := 0, isVisited := True\<rparr>),
      s_visited = [start], s_worklist = [start], s_delays = [], s_phase = Running\<rparr>"

text \<open>One round of the loop over the neighbours; the triple is the grid, the queue and
  \<^verbatim>\<open>visitedNodes\<close>.\<close>

definition bfs_discover ::
  "pos \<Rightarrow> grid \<times> pos list \<times> pos list \<Rightarrow> pos \<Rightarrow> grid \<times> pos list \<times> pos list" where
  "bfs_discover currentNode gqv neighbor =
     (let (g, queue, vs) = gqv in
      if \<not> isVisited (node g neighbor) \<and> \<not> isWall (node g neighbor)
      then (upd g neighbor
              (\<lambda>n. n\<lparr>isVisited := True, distance := distance (node g currentNode) + 1,
                     previousNode := Some currentNode\<rparr>),
            queue @ [neighbor], vs @ [neighbor])
      else gqv)"

definition bfs_step :: "pos \<Rightarrow> pos \<Rightarrow> int \<Rightarrow> search_state \<Rightarrow> search_state" where
  "bfs_step startNode endNode animationSpeed st =
     (case s_worklist st of
        [] \<Rightarrow> st
      | currentNode # rest \<Rightarrow>
          let ds = s_delays st @ visit_delay startNode endNode animationSpeed currentNode
          in if currentNode = endNode
             then st\<lparr>s_worklist := rest, s_delays := ds, s_phase := Reached\<rparr>
             else
               let (g', queue, vs) =
                     foldl (bfs_discover currentNode) (s_grid st, rest, s_visited st)
                       (getNeighbors (s_grid st) currentNode)
               in st\<lparr>s_grid := g', s_visited := vs, s_worklist := queue, s_delays := ds\<rparr>)"

definition bfs_loop :: "grid \<Rightarrow> pos \<Rightarrow> pos \<Rightarrow> int \<Rightarrow> search_state option" where
  "bfs_loop g start end animationSpeed =
     while_option search_cond (bfs_step start end animationSpeed) (bfs_init g start)"

definition bfs :: "grid \<Rightarrow> pos \<Rightarrow> pos \<Rightarrow> int \<Rightarrow> AlgorithmResult option" where
  "bfs g start end animationSpeed =
     Option.bind (bfs_loop g start end animationSpeed) (finish end)"

subsection \<open>dfs\<close>

text \<open>
  \<^verbatim>\<open>dfsRecursive\<close> calls itself from inside its loop over the neighbours.  The two
  kinds of control point are the two kinds of call here: \<open>Inl currentNode\<close> is the
  entry of \<^verbatim>\<open>dfsRecursive(grid, currentNode, ...)\<close>, and \<open>Inr (currentNode, ns)\<close> is
  its \<^verbatim>\<open>for\<close> loop with the neighbours \<open>ns\<close> still to come.  The result is the
  boolean returned and the state left behind; \<open>None\<close> stands for a recursion that
  does not end.
\<close>

partial_function (option) dfsRecursive ::
  "pos \<Rightarrow> int \<Rightarrow> pos + pos \<times> pos list \<Rightarrow> search_state \<Rightarrow> (bool \<times> search_state) option"
where
  "dfsRecursive endNode animationSpeed call st =
    (case call of
       Inl currentNode \<Rightarrow>
         if isWall (node (s_grid st) currentNode) \<or> isVisited (node (s_grid st) currentNode)
         then Some (False, st)
         else
           let st1 = st\<lparr>s_grid := upd (s_grid st) currentNode (\<lambda>n. n\<lparr>isVisited := True\<rparr>),
                       s_visited := s_visited st @ [currentNode],
                       s_delays := s_delays st @
                          (if currentNode \<noteq> endNode
                           then [(currentNode, of_int (101 - animationSpeed))] else [])\<rparr>
           in if currentNode = endNode then Some (True, st1)
              else dfsRecursive endNode animationSpeed
                     (Inr (currentNode, getNeighbors (s_grid st1) currentNode)) st1
     | Inr (currentNode, []) \<Rightarrow> Some (False, st)
     | Inr (currentNode, neighbor # rest) \<Rightarrow>
         if \<not> isVisited (node (s_grid st) neighbor) \<and> \<not> isWall (node (s_grid st) neighbor)
         then Option.bind
                (dfsRecursive endNode animationSpeed (Inl neighbor)
                   (st\<lparr>s_grid := upd (s_grid st) neighbor
                                    (\<lambda>n. n\<lparr>previousNode := Some currentNode\<rparr>)\<rparr>))
                (\<lambda>(found, st'). if found then Some (True, st')
                    else dfsRecursive endNode animationSpeed (Inr (currentNode, rest)) st')
         else dfsRecursive endNode animationSpeed (Inr (currentNode, rest)) st)"

declare dfsRecursive.simps [code]

definition dfs_reset :: "GridNode \<Rightarrow> GridNode" where
  "dfs_reset n = n\<lparr>isVisited := False, isPath := False, previousNode := None\<rparr>"

definition dfs_init :: "grid \<Rightarrow> search_state" where
  "dfs_init g =
     \<lparr>s_grid = map (map dfs_reset) g, s_visited = [], s_worklist = [], s_delays = [],
      s_phase = Running\<rparr>"

definition dfs :: "grid \<Rightarrow> pos \<Rightarrow> pos \<Rightarrow> int \<Rightarrow> AlgorithmResult option" where
  "dfs g start end animationSpeed =
     Option.bind (dfsRecursive end animationSpeed (Inl start) (dfs_init g))
       (\<lambda>(result, st).
           if result
           then map_option (\<lambda>p. found_result p (s_visited st)) (reconstructPath (s_grid st) end)
           else Some (failure_result (s_visited st)))"

subsection \<open>greedy\<close>

definition greedy_reset :: "GridNode \<Rightarrow> GridNode" where
  "greedy_reset n = n\<lparr>heuristic := 0, previousNode := None, isVisited := False, isPath := False\<rparr>"

definition greedy_init :: "grid \<Rightarrow> pos \<Rightarrow> pos \<Rightarrow> search_state" where
  "greedy_init g start end =
     \<lparr>s_grid = upd (map (map greedy_reset) g) start (\<lambda>n. n\<lparr>heuristic := manhattan start end\<rparr>),
      s_visited = [], s_worklist = [start], s_delays = [], s_phase = Running\<rparr>"

definition greedy_discover :: "pos \<Rightarrow> pos \<Rightarrow> grid \<times> pos list \<Rightarrow> pos \<Rightarrow> grid \<times> pos list" where
  "greedy_discover currentNode endNode gs neighbor =
     (let (g, openSet) = gs in
      if \<not> isVisited (node g neighbor) \<and> \<not> isWall (node g neighbor) \<and> neighbor \<notin> set openSet
      then (upd g neighbor
              (\<lambda>n. n\<lparr>heuristic := manhattan neighbor endNode, previousNode := Some currentNode\<rparr>),
            openSet @ [neighbor])
      else gs)"

definition greedy_step :: "pos \<Rightarrow> pos \<Rightarrow> int \<Rightarrow> search_state \<Rightarrow> search_state" where
  "greedy_step startNode endNode animationSpeed st =
     (case sort_key (\<lambda>p. heuristic (node (s_grid st) p)) (s_worklist st) of
        [] \<Rightarrow> st
      | currentNode # rest \<Rightarrow>
          if isWall (node (s_grid st) currentNode) \<or> isVisited (node (s_grid st) currentNode)
          then st\<lparr>s_worklist := rest\<rparr>
          else
            let g = upd (s_grid st) currentNode (\<lambda>n. n\<lparr>isVisited := True\<rparr>);
                vs = s_visited st @ [currentNode];
                ds = s_delays st @ visit_delay startNode endNode animationSpeed currentNode
            in if currentNode = endNode
               then st\<lparr>s_grid := g, s_visited := vs, s_worklist := rest, s_delays := ds,
                       s_phase := Reached\<rparr>
               else
                 let (g', openSet) =
                       foldl (greedy_discover currentNode endNode) (g, rest)
                         (getNeighbors g currentNode)
                 in st\<lparr>s_grid := g', s_visited := vs, s_worklist := openSet, s_delays := ds\<rparr>)"

definition greedy_loop :: "grid \<Rightarrow> pos \<Rightarrow> pos \<Rightarrow> int \<Rightarrow> search_state option" where
  "greedy_loop g start end animationSpeed =
     while_option search_cond (greedy_step start end animationSpeed) (greedy_init g start end)"

definition greedy :: "grid \<Rightarrow> pos \<Rightarrow> pos \<Rightarrow> int \<Rightarrow> AlgorithmResult option" where
  "greedy g start end animationSpeed =
     Option.bind (greedy_loop g start end animationSpeed) (finish end)"

subsection \<open>bidirectional\<close>

text \<open>
  The sets \<^verbatim>\<open>startVisited\<close>, \<^verbatim>\<open>endVisited\<close> and the maps \<^verbatim>\<open>startParents\<close>,
  \<^verbatim>\<open>endParents\<close> are keyed by the string \<^verbatim>\<open>`${row}-${col}`\<close>, which determines the
  position; here they are keyed by the position.
\<close>

record bidirectional_state =
  b_grid :: grid
  b_visited :: "pos list"
  startQueue :: "pos list"
  endQueue :: "pos list"
  startVisited :: "pos set"
  endVisited :: "pos set"
  startParents :: "pos \<rightharpoonup> pos"
  endParents :: "pos \<rightharpoonup> pos"
  meetingPoint :: "pos option"
  b_delays :: "(pos \<times> rat) list"

definition half_delay :: "pos \<Rightarrow> pos \<Rightarrow> int \<Rightarrow> pos \<Rightarrow> (pos \<times> rat) list" where
  "half_delay startNode endNode animationSpeed currentNode =
     (if currentNode \<noteq> startNode \<and> currentNode \<noteq> endNode
      then [(currentNode, of_int (101 - animationSpeed) / 2)] else [])"

text \<open>One round of either side's loop over the neighbours; the triple is that side's
  visited set, parent map and queue.\<close>

definition bidirectional_discover ::
  "grid \<Rightarrow> pos \<Rightarrow> pos set \<times> (pos \<rightharpoonup> pos) \<times> pos list \<Rightarrow> pos
     \<Rightarrow> pos set \<times> (pos \<rightharpoonup> pos) \<times> pos list" where
  "bidirectional_discover g currentNode vpq neighbor =
     (let (vis, parents, queue) = vpq in
      if \<not> isWall (node g neighbor) \<and> neighbor \<notin> vis
      then (insert neighbor vis, parents(neighbor \<mapsto> currentNode), queue @ [neighbor])
      else vpq)"

definition start_side :: "pos \<Rightarrow> pos \<Rightarrow> int \<Rightarrow> bidirectional_state \<Rightarrow> bidirectional_state" where
  "start_side startNode endNode animationSpeed st =
     (case startQueue st of
        [] \<Rightarrow> st
      | currentNode # rest \<Rightarrow>
          let g = upd (b_grid st) currentNode (\<lambda>n. n\<lparr>isVisited := True\<rparr>);
              vs = b_visited st @ [currentNode];
              ds = b_delays st @ half_delay startNode endNode animationSpeed currentNode
          in if currentNode \<in> endVisited st
             then st\<lparr>b_grid := g, b_visited := vs, startQueue := rest, b_delays := ds,
                     meetingPoint := Some currentNode\<rparr>
             else
               let (vis, parents, queue) =
                     foldl (bidirectional_discover g currentNode)
                       (startVisited st, startParents st, rest) (getNeighbors g currentNode)
               in st\<lparr>b_grid := g, b_visited := vs, startQueue := queue, startVisited := vis,
                      startParents := parents, b_delays := ds\<rparr>)"

definition end_side :: "pos \<Rightarrow> pos \<Rightarrow> int \<Rightarrow> bidirectional_state \<Rightarrow> bidirectional_state" where
  "end_side startNode endNode animationSpeed st =
     (case endQueue st of
        [] \<Rightarrow> st
      | currentNode # rest \<Rightarrow>
          let g = upd (b_grid st) currentNode (\<lambda>n. n\<lparr>isVisited := True\<rparr>);
              vs = (if currentNode \<notin> set (b_visited st) then b_visited st @ [currentNode]
                    else b_visited st);
              ds = b_delays st @ half_delay startNode endNode animationSpeed currentNode
          in if currentNode \<in> startVisited st
             then st\<lparr>b_grid := g, b_visited := vs, endQueue := rest, b_delays := ds,
                     meetingPoint := Some currentNode\<rparr>
             else
               let (vis, parents, queue) =
                     foldl (bidirectional_discover g currentNode)
                       (endVisited st, endParents st, rest) (getNeighbors g currentNode)
               in st\<lparr>b_grid := g, b_visited := vs, endQueue := queue, endVisited := vis,
                      endParents := parents, b_delays := ds\<rparr>)"

text \<open>One iteration of the \<^verbatim>\<open>while\<close> loop: the start side, then, unless the start
  side has left the loop by \<^verbatim>\<open>break\<close>, the end side.\<close>

definition bidirectional_step ::
  "pos \<Rightarrow> pos \<Rightarrow> int \<Rightarrow> bidirectional_state \<Rightarrow> bidirectional_state" where
  "bidirectional_step startNode endNode animationSpeed st =
     (let st1 = start_side startNode endNode animationSpeed st
      in if meetingPoint st1 \<noteq> None then st1
         else end_side startNode endNode animationSpeed st1)"

definition bidirectional_cond :: "bidirectional_state \<Rightarrow> bool" where
  "bidirectional_cond st \<longleftrightarrow>
     (startQueue st \<noteq> [] \<or> endQueue st \<noteq> []) \<and> meetingPoint st = None"

definition bidirectional_init :: "grid \<Rightarrow> pos \<Rightarrow> pos \<Rightarrow> bidirectional_state" where
  "bidirectional_init g start end =
     \<lparr>b_grid = map (map dfs_reset) g, b_visited = [],
      startQueue = [start], endQueue = [end],
      startVisited = {start}, endVisited = {end},
      startParents = Map.empty, endParents = Map.empty,
      meetingPoint = None, b_delays = []\<rparr>"

text \<open>The two loops of \<^verbatim>\<open>reconstructBidirectionalPath\<close>: \<^verbatim>\<open>while (current)\<close> with
  \<^verbatim>\<open>unshift\<close> along the start side's parents, then with \<^verbatim>\<open>push\<close> along the end
  side's parents.\<close>

definition reconstructBidirectionalPath ::
  "pos \<Rightarrow> (pos \<rightharpoonup> pos) \<Rightarrow> (pos \<rightharpoonup> pos) \<Rightarrow> pos list option" where
  "reconstructBidirectionalPath meeting sParents eParents =
     Option.bind
       (while_option (\<lambda>(startPath, current). current \<noteq> None)
          (\<lambda>(startPath, current). (the current # startPath, sParents (the current)))
          ([], Some meeting))
       (\<lambda>(startPath, _).
          map_option (\<lambda>(endPath, _). startPath @ endPath)
            (while_option (\<lambda>(endPath, current). current \<noteq> None)
               (\<lambda>(endPath, current). (endPath @ [the current], eParents (the current)))
               ([], eParents meeting)))"

definition bidirectional_loop :: "grid \<Rightarrow> pos \<Rightarrow> pos \<Rightarrow> int \<Rightarrow> bidirectional_state option" where
  "bidirectional_loop g start end animationSpeed =
     while_option bidirectional_cond (bidirectional_step start end animationSpeed)
       (bidirectional_init g start end)"

definition bidirectional_finish :: "bidirectional_state \<Rightarrow> AlgorithmResult option" where
  "bidirectional_finish st =
     (case meetingPoint st of
        Some m \<Rightarrow>
          map_option (\<lambda>p. found_result p (b_visited st))
            (reconstructBidirectionalPath m (startParents st) (endParents st))
      | None \<Rightarrow> Some (failure_result (b_visited st)))"

definition bidirectional :: "grid \<Rightarrow> pos \<Rightarrow> pos \<Rightarrow> int \<Rightarrow> AlgorithmResult option" where
  "bidirectional g start end animationSpeed =
     Option.bind (bidirectional_loop g start end animationSpeed) bidirectional_finish"

subsection \<open>The table of algorithms\<close>

datatype Algorithm = Dijkstra | Astar | Bfs | Dfs | Greedy | Bidirectional

fun algorithms :: "Algorithm \<Rightarrow> grid \<Rightarrow> pos \<Rightarrow> pos \<Rightarrow> int \<Rightarrow> AlgorithmResult option" where
  "algorithms Dijkstra = dijkstra"
| "algorithms Astar = astar"
| "algorithms Bfs = bfs"
| "algorithms Dfs = dfs"
| "algorithms Greedy = greedy"
| "algorithms Bidirectional = bidirectional"

subsection \<open>The caller's grid\<close>

text \<open>\<^verbatim>\<open>initializeGrid\<close> of the page component builds the grid every run starts
  from: \<open>gridSize\<close> rows of \<open>gridSize\<close> fresh cells.\<close>

definition freshNode :: GridNode where
  "freshNode = \<lparr>isStart = False, isEnd = False, isWall = False, isVisited = False, isPath = False,
      distance = \<infinity>, heuristic = 0, weight = 1, previousNode = None\<rparr>"

definition initializeGrid :: "nat \<Rightarrow> grid" where
  "initializeGrid gridSize = replicate gridSize (replicate gridSize freshNode)"

section \<open>Grids, paths and costs\<close>

text \<open>
  A grid is rectangular and not empty (the caller builds \<open>gridSize\<close> rows of
  \<open>gridSize\<close> cells).  \<open>in_grid\<close> is the bounds test of \<^verbatim>\<open>getNeighbors\<close>.
\<close>

definition valid_grid :: "grid \<Rightarrow> bool" where
  "valid_grid g \<longleftrightarrow> g \<noteq> [] \<and> (\<forall>row \<in> set g. length row = length (g ! 0))"

definition in_grid :: "grid \<Rightarrow> pos \<Rightarrow> bool" where
  "in_grid g p \<longleftrightarrow> row p < length g \<and> col p < length (g ! 0)"

definition adjacent :: "pos \<Rightarrow> pos \<Rightarrow> bool" where
  "adjacent p q \<longleftrightarrow>
     (row p = row q \<and> (col p = col q + 1 \<or> col q = col p + 1))
     \<or> (col p = col q \<and> (row p = row q + 1 \<or> row q = row p + 1))"

definition open_cell :: "grid \<Rightarrow> pos \<Rightarrow> bool" where
  "open_cell g p \<longleftrightarrow> in_grid g p \<and> \<not> isWall (node g p)"

text \<open>A path: a non-empty sequence of open (non-wall) cells of the grid, each
  orthogonally adjacent to the next.\<close>

fun open_path :: "grid \<Rightarrow> pos list \<Rightarrow> bool" where
  "open_path g [] = False"
| "open_path g [p] = open_cell g p"
| "open_path g (p # q # ps) = (open_cell g p \<and> adjacent p q \<and> open_path g (q # ps))"

definition connects :: "grid \<Rightarrow> pos \<Rightarrow> pos \<Rightarrow> pos list \<Rightarrow> bool" where
  "connects g s e ps \<longleftrightarrow> open_path g ps \<and> hd ps = s \<and> last ps = e"

definition reachable :: "grid \<Rightarrow> pos \<Rightarrow> pos \<Rightarrow> bool" where
  "reachable g s e \<longleftrightarrow> (\<exists>ps. connects g s e ps)"

text \<open>The cost of a path by weights is the sum of the weights of the cells entered
  (all but the first); its cost by steps is the number of its edges.\<close>

definition weight_cost :: "grid \<Rightarrow> pos list \<Rightarrow> nat" where
  "weight_cost g ps = sum_list (map (\<lambda>p. weight (node g p)) (tl ps))"

definition edge_count :: "pos list \<Rightarrow> nat" where
  "edge_count ps = length ps - 1"

text \<open>The sum over the cells entered, for an arbitrary cost per cell; \<open>weight_cost\<close> is
  the instance by weights and \<open>edge_count\<close> the instance by unit steps.\<close>

definition path_cost :: "(pos \<Rightarrow> nat) \<Rightarrow> pos list \<Rightarrow> nat" where
  "path_cost wt ps = sum_list (map wt (tl ps))"

text \<open>A list follows a parent function when each element is the parent of the next;
  \<open>position_in\<close> is the index of the first occurrence of an element.\<close>

fun follows :: "(pos \<Rightarrow> pos option) \<Rightarrow> pos list \<Rightarrow> bool" where
  "follows par [] = True"
| "follows par [p] = True"
| "follows par (p # q # ps) = (par q = Some p \<and> follows par (q # ps))"

definition position_in :: "pos list \<Rightarrow> pos \<Rightarrow> nat" where
  "position_in xs p = length (takeWhile (\<lambda>x. x \<noteq> p) xs)"

section \<open>Invariants of the search loops\<close>

text \<open>
  \<open>frame g0 g vs\<close>: the grid \<open>g\<close> of a running search has the shape, walls and
  weights of the grid \<open>g0\<close> the search was called with, and its \<^verbatim>\<open>isVisited\<close> flags
  mark exactly the cells of \<open>vs\<close>.
\<close>

definition frame :: "grid \<Rightarrow> grid \<Rightarrow> pos list \<Rightarrow> bool" where
  "frame g0 g vs \<longleftrightarrow>
     valid_grid g \<and> length g = length g0 \<and> length (g ! 0) = length (g0 ! 0)
     \<and> (\<forall>p. in_grid g0 p \<longrightarrow>
            isWall (node g p) = isWall (node g0 p) \<and> weight (node g p) = weight (node g0 p)
            \<and> (isVisited (node g p) \<longleftrightarrow> p \<in> set vs))
     \<and> (\<forall>p \<in> set vs. in_grid g0 p)"

text \<open>
  \<open>tree_inv g0 s g vs\<close>: the \<^verbatim>\<open>previousNode\<close> links of the cells of \<open>vs\<close> form a tree
  rooted at \<open>s\<close>: every cell but \<open>s\<close> links to an adjacent cell that comes earlier in
  \<open>vs\<close>.
\<close>

definition tree_inv :: "grid \<Rightarrow> pos \<Rightarrow> grid \<Rightarrow> pos list \<Rightarrow> bool" where
  "tree_inv g0 s g vs \<longleftrightarrow>
     distinct vs \<and> (\<forall>p \<in> set vs. open_cell g0 p) \<and> (vs \<noteq> [] \<longrightarrow> s \<in> set vs)
     \<and> previousNode (node g s) = None
     \<and> (\<forall>p \<in> set vs. p \<noteq> s \<longrightarrow>
          (\<exists>q \<in> set vs. previousNode (node g p) = Some q \<and> adjacent q p
             \<and> position_in vs q < position_in vs p))"

text \<open>
  \<open>cost_inv g0 s e g vs\<close>, for dijkstra and astar: the distance of a visited cell
  is finite, is the distance of its parent plus its weight, and is at most the cost
  of any path from \<open>s\<close>; an unvisited
  cell with a finite distance has a visited parent; every open neighbour of a
  visited cell other than \<open>e\<close> is within its weight of that cell.
\<close>

definition cost_inv :: "grid \<Rightarrow> pos \<Rightarrow> pos \<Rightarrow> grid \<Rightarrow> pos list \<Rightarrow> bool" where
  "cost_inv g0 s e g vs \<longleftrightarrow>
     distance (node g s) = 0
     \<and> (\<forall>p \<in> set vs. distance (node g p) \<noteq> \<infinity>)
     \<and> (\<forall>p \<in> set vs. \<forall>q. previousNode (node g p) = Some q \<longrightarrow>
           q \<in> set vs
           \<and> distance (node g p) = distance (node g q) + enat (weight (node g0 p)))
     \<and> (\<forall>p. in_grid g0 p \<and> p \<notin> set vs \<and> p \<noteq> s \<and> distance (node g p) \<noteq> \<infinity> \<longrightarrow>
           open_cell g0 p
           \<and> (\<exists>q \<in> set vs. previousNode (node g p) = Some q \<and> adjacent q p
                \<and> distance (node g p) = distance (node g q) + enat (weight (node g0 p))))
     \<and> (\<forall>x \<in> set vs. x \<noteq> e \<longrightarrow>
           (\<forall>y. adjacent x y \<and> open_cell g0 y \<longrightarrow>
                distance (node g y) \<le> distance (node g x) + enat (weight (node g0 y))))
     \<and> (\<forall>x \<in> set vs. \<forall>ps. open_path g0 ps \<and> hd ps = s \<and> last ps = x \<longrightarrow>
           distance (node g x) \<le> enat (weight_cost g0 ps))"

definition dijkstra_inv :: "grid \<Rightarrow> pos \<Rightarrow> pos \<Rightarrow> search_state \<Rightarrow> bool" where
  "dijkstra_inv g0 s e st \<longleftrightarrow>
     frame g0 (s_grid st) (s_visited st)
     \<and> tree_inv g0 s (s_grid st) (s_visited st)
     \<and> cost_inv g0 s e (s_grid st) (s_visited st)
     \<and> (case s_phase st of
           Running \<Rightarrow>
             distinct (s_worklist st)
             \<and> set (s_worklist st) = {p. in_grid g0 p} - set (s_visited st)
             \<and> e \<notin> set (s_visited st)
             \<and> (\<forall>x \<in> set (s_visited st). \<forall>y \<in> set (s_worklist st).
                   distance (node (s_grid st) x) \<le> distance (node (s_grid st) y))
         | Stopped \<Rightarrow> e \<notin> set (s_visited st) \<and> \<not> reachable g0 s e
         | Reached \<Rightarrow> e \<in> set (s_visited st))"

text \<open>
  \<open>disc_inv g0 s e g vs wl\<close>, for astar and greedy: the open set \<open>wl\<close> holds open,
  unvisited cells without repetition, each linked to an adjacent visited cell; it
  is \<open>[s]\<close> before the first visit; every open neighbour of a visited cell other
  than \<open>e\<close> is visited or in the open set.
\<close>

definition disc_inv :: "grid \<Rightarrow> pos \<Rightarrow> pos \<Rightarrow> grid \<Rightarrow> pos list \<Rightarrow> pos list \<Rightarrow> bool" where
  "disc_inv g0 s e g vs wl \<longleftrightarrow>
     distinct wl \<and> (\<forall>p \<in> set wl. open_cell g0 p \<and> p \<notin> set vs)
     \<and> (\<forall>p \<in> set wl. p \<noteq> s \<longrightarrow>
           (\<exists>q \<in> set vs. previousNode (node g p) = Some q \<and> adjacent q p))
     \<and> (vs = [] \<longrightarrow> wl = [s])
     \<and> (\<forall>x \<in> set vs. x \<noteq> e \<longrightarrow>
           (\<forall>y. adjacent x y \<and> open_cell g0 y \<longrightarrow> y \<in> set vs \<or> y \<in> set wl))"

definition search_inv :: "grid \<Rightarrow> pos \<Rightarrow> pos \<Rightarrow> search_state \<Rightarrow> bool" where
  "search_inv g0 s e st \<longleftrightarrow>
     frame g0 (s_grid st) (s_visited st)
     \<and> tree_inv g0 s (s_grid st) (s_visited st)
     \<and> (case s_phase st of
           Running \<Rightarrow> disc_inv g0 s e (s_grid st) (s_visited st) (s_worklist st)
                       \<and> e \<notin> set (s_visited st)
         | Stopped \<Rightarrow> False
         | Reached \<Rightarrow> e \<in> set (s_visited st))"

text \<open>The part of astar's invariant that needs every open cell to weigh at least 1:
  the \<^verbatim>\<open>heuristic\<close> field of a discovered cell is its Manhattan distance to \<open>e\<close>, the
  open set holds the unvisited cells with a finite distance, and no visited cell
  has a larger \<^verbatim>\<open>distance + heuristic\<close> than a cell of the open set.\<close>

definition astar_cost_inv :: "grid \<Rightarrow> pos \<Rightarrow> pos \<Rightarrow> search_state \<Rightarrow> bool" where
  "astar_cost_inv g0 s e st \<longleftrightarrow>
     cost_inv g0 s e (s_grid st) (s_visited st)
     \<and> (s_phase st = Running \<longrightarrow>
          (\<forall>p \<in> set (s_worklist st). heuristic (node (s_grid st) p) = manhattan p e)
          \<and> set (s_worklist st)
              = {p. in_grid g0 p \<and> p \<notin> set (s_visited st) \<and> distance (node (s_grid st) p) \<noteq> \<infinity>}
          \<and> (\<forall>x \<in> set (s_visited st). \<forall>y \<in> set (s_worklist st).
                distance (node (s_grid st) x) + enat (manhattan x e)
                \<le> distance (node (s_grid st) y) + enat (manhattan y e)))"

text \<open>
  For bfs, \<^verbatim>\<open>visitedNodes\<close> holds the cells discovered so far, in the order of their
  discovery, and the queue is its tail.  \<open>bfs_dist\<close>: the \<^verbatim>\<open>distance\<close> field counts
  the links back to \<open>s\<close>, grows along \<^verbatim>\<open>visitedNodes\<close>, and differs by at most one
  between the head of the queue and any discovered cell.  \<open>bfs_done\<close>, for the cells
  \<open>dn\<close> already taken from the queue: their open neighbours are discovered and at
  most one step further, and their distance is at most the number of edges of any
  path from \<open>s\<close>.
\<close>

definition bfs_dist :: "pos \<Rightarrow> grid \<Rightarrow> grid \<Rightarrow> pos list \<Rightarrow> pos list \<Rightarrow> bool" where
  "bfs_dist s g0 g vs wl \<longleftrightarrow>
     vs \<noteq> [] \<and> hd vs = s \<and> distance (node g s) = 0
     \<and> (\<forall>p \<in> set vs. distance (node g p) \<noteq> \<infinity>)
     \<and> (\<forall>p \<in> set vs. \<forall>q. previousNode (node g p) = Some q \<longrightarrow>
           distance (node g p) = distance (node g q) + 1)
     \<and> (\<forall>p. in_grid g0 p \<and> p \<notin> set vs \<longrightarrow> distance (node g p) = \<infinity>)
     \<and> sorted_wrt (\<lambda>a b. distance (node g a) \<le> distance (node g b)) vs
     \<and> (wl \<noteq> [] \<longrightarrow> (\<forall>y \<in> set vs. distance (node g y) \<le> distance (node g (hd wl)) + 1))"

definition bfs_done :: "grid \<Rightarrow> pos \<Rightarrow> pos \<Rightarrow> grid \<Rightarrow> pos list \<Rightarrow> pos list \<Rightarrow> pos list \<Rightarrow> bool" where
  "bfs_done g0 s e g vs wl dn \<longleftrightarrow>
     vs = dn @ wl
     \<and> (\<forall>x \<in> set dn. x \<noteq> e \<longrightarrow>
           (\<forall>y. adjacent x y \<and> open_cell g0 y \<longrightarrow>
                y \<in> set vs \<and> distance (node g y) \<le> distance (node g x) + 1))
     \<and> (\<forall>x \<in> set dn. \<forall>ps. open_path g0 ps \<and> hd ps = s \<and> last ps = x \<longrightarrow>
           distance (node g x) \<le> enat (edge_count ps))"

definition bfs_inv :: "grid \<Rightarrow> pos \<Rightarrow> pos \<Rightarrow> search_state \<Rightarrow> bool" where
  "bfs_inv g0 s e st \<longleftrightarrow>
     frame g0 (s_grid st) (s_visited st)
     \<and> tree_inv g0 s (s_grid st) (s_visited st)
     \<and> bfs_dist s g0 (s_grid st) (s_visited st) (s_worklist st)
     \<and> (\<exists>dn. bfs_done g0 s e (s_grid st) (s_visited st) (s_worklist st) dn
            \<and> (e \<in> set dn \<longleftrightarrow> s_phase st = Reached))
     \<and> s_phase st \<noteq> Stopped"

section \<open>Statistics of a result\<close>

lemma finish_stats:
  "finish e st = Some r \<Longrightarrow>
     pathLength (stats r) = nodesInPath (stats r) \<and> nodesInPath (stats r) = length (path r)
     \<and> nodesVisited (stats r) = length (visitedNodes r)"
  by (auto simp: finish_def found_result_def failure_result_def split: if_splits)

lemma bidirectional_finish_stats:
  "bidirectional_finish st = Some r \<Longrightarrow>
     pathLength (stats r) = nodesInPath (stats r) \<and> nodesInPath (stats r) = length (path r)
     \<and> nodesVisited (stats r) = length (visitedNodes r)"
  by (auto simp: bidirectional_finish_def found_result_def failure_result_def split: option.splits)

lemma dfs_stats:
  "dfs g s e sp = Some r \<Longrightarrow>
     pathLength (stats r) = nodesInPath (stats r) \<and> nodesInPath (stats r) = length (path r)
     \<and> nodesVisited (stats r) = length (visitedNodes r)"
  by (auto simp: dfs_def found_result_def failure_result_def split: if_splits bind_splits)

text \<open>
  Claim C10.  In every result returned by any of the six search algorithms,
  \<open>pathLength\<close> equals \<open>nodesInPath\<close>, both equal the number of cells of the returned
  path, and \<open>nodesVisited\<close> equals the number of cells of the returned visited
  sequence.
\<close>

theorem stats_consistent:
  assumes "algorithms alg g start end animationSpeed = Some r"
  shows "pathLength (stats r) = nodesInPath (stats r) \<and> nodesInPath (stats r) = length (path r)
     \<and> nodesVisited (stats r) = length (visitedNodes r)"
proof (cases alg)
  case Dijkstra
  with assms show ?thesis by (auto simp: dijkstra_def split: bind_splits dest: finish_stats)
next
  case Astar
  with assms show ?thesis by (auto simp: astar_def split: bind_splits dest: finish_stats)
next
  case Bfs
  with assms show ?thesis by (auto simp: bfs_def split: bind_splits dest: finish_stats)
next
  case Dfs
  with assms show ?thesis by (auto dest: dfs_stats)
next
  case Greedy
  with assms show ?thesis by (auto simp: greedy_def split: bind_splits dest: finish_stats)
next
  case Bidirectional
  with assms show ?thesis
    by (auto simp: bidirectional_def split: bind_splits dest: bidirectional_finish_stats)
qed

theorem stats_consistent_witness:
  "algorithms Astar (initializeGrid 2) (Pos 0 0) (Pos 1 1) 50
     = Some (found_result [Pos 0 0, Pos 1 0, Pos 1 1] [Pos 0 0, Pos 1 0, Pos 0 1, Pos 1 1])
   \<and> pathLength (stats (found_result [Pos 0 0, Pos 1 0, Pos 1 1] [Pos 0 0, Pos 1 0, Pos 0 1, Pos 1 1])) = 3
   \<and> nodesVisited (stats (found_result [Pos 0 0, Pos 1 0, Pos 1 1] [Pos 0 0, Pos 1 0, Pos 0 1, Pos 1 1])) = 4"
proof -
  have h: "algorithms Astar (initializeGrid 2) (Pos 0 0) (Pos 1 1) 50
     = Some (found_result [Pos 0 0, Pos 1 0, Pos 1 1] [Pos 0 0, Pos 1 0, Pos 0 1, Pos 1 1])"
    by code_simp
  show ?thesis using h stats_consistent [OF h] by (simp add: found_result_def)
qed

end
